theory Spec2Isabelle
  imports Main "HOL-Library.Word" "HOL-Library.Monad_Syntax"
begin

unbundle bit_operations_syntax

section \<open>Status codes and the errno translation\<close>

text \<open>
  The values of \<^verbatim>\<open>errno\<close> that \<^verbatim>\<open>ErrnoToEfiStatus\<close> distinguishes. Their numbers come
  from the platform's \<^verbatim>\<open>errno.h\<close>; the \<^verbatim>\<open>switch\<close> only compiles when the listed
  constants are pairwise different and different from 0, so they are constructors here.
  \<open>Errno_0\<close> is the value 0 and \<open>Errno_other n\<close> is any value without a \<^verbatim>\<open>case\<close> label.
\<close>

datatype errno_t =
    Errno_0
  | ECANCELED | EACCES | EEXIST | ETXTBSY
  | EADDRINUSE | EALREADY | EINPROGRESS | EISCONN
  | EMSGSIZE | E2BIG | EOVERFLOW | ERANGE
  | ENODEV | ENOEXEC | ESPIPE | EFBIG
  | EBADF | EDOM | EFAULT | EIDRM | EILSEQ | EINVAL | ENAMETOOLONG | EPROTOTYPE
  | EMFILE | EMLINK | ENFILE | ENOBUFS | ENOLCK | ENOLINK | ENOMEM | ENOSR
  | EBADMSG | EISDIR | EIO | ENOMSG | ENOSTR | EPROTO
  | EBUSY | ENODATA
  | ECHILD | ENOENT | ENXIO
  | EAGAIN | EINTR
  | ESRCH
  | ETIME | ETIMEDOUT
  | EAFNOSUPPORT | ENOPROTOOPT | ENOSYS | ENOTSUP
  | ENOMEDIUM
  | ELOOP | ENOTDIR | ENOTEMPTY | EXDEV
  | ENOSPC | EROFS | EPERM
  | Errno_other int

datatype EFI_STATUS =
    EFI_SUCCESS
  | EFI_LOAD_ERROR | EFI_INVALID_PARAMETER | EFI_UNSUPPORTED | EFI_BAD_BUFFER_SIZE
  | EFI_BUFFER_TOO_SMALL | EFI_NOT_READY | EFI_DEVICE_ERROR | EFI_WRITE_PROTECTED
  | EFI_OUT_OF_RESOURCES | EFI_VOLUME_CORRUPTED | EFI_VOLUME_FULL | EFI_NO_MEDIA
  | EFI_MEDIA_CHANGED | EFI_NOT_FOUND | EFI_ACCESS_DENIED | EFI_NO_RESPONSE
  | EFI_NO_MAPPING | EFI_TIMEOUT | EFI_NOT_STARTED | EFI_ALREADY_STARTED
  | EFI_ABORTED | EFI_PROTOCOL_ERROR | EFI_SECURITY_VIOLATION
  | EFI_END_OF_MEDIA | EFI_END_OF_FILE
  | EFI_WARN_DELETE_FAILURE

text \<open>\<^verbatim>\<open>EFI_ERROR(Status)\<close>: the high bit of the code; success and warnings have it clear.\<close>

fun EFI_ERROR :: "EFI_STATUS \<Rightarrow> bool" where
  "EFI_ERROR EFI_SUCCESS = False"
| "EFI_ERROR EFI_WARN_DELETE_FAILURE = False"
| "EFI_ERROR _ = True"

text \<open>\<^verbatim>\<open>ErrnoToEfiStatus\<close>, with the value of \<^verbatim>\<open>errno\<close> it reads as the argument.\<close>

fun ErrnoToEfiStatus :: "errno_t \<Rightarrow> EFI_STATUS" where
  "ErrnoToEfiStatus Errno_0 = EFI_SUCCESS"
| "ErrnoToEfiStatus ECANCELED = EFI_ABORTED"
| "ErrnoToEfiStatus EACCES = EFI_ACCESS_DENIED"
| "ErrnoToEfiStatus EEXIST = EFI_ACCESS_DENIED"
| "ErrnoToEfiStatus ETXTBSY = EFI_ACCESS_DENIED"
| "ErrnoToEfiStatus EADDRINUSE = EFI_ALREADY_STARTED"
| "ErrnoToEfiStatus EALREADY = EFI_ALREADY_STARTED"
| "ErrnoToEfiStatus EINPROGRESS = EFI_ALREADY_STARTED"
| "ErrnoToEfiStatus EISCONN = EFI_ALREADY_STARTED"
| "ErrnoToEfiStatus EMSGSIZE = EFI_BAD_BUFFER_SIZE"
| "ErrnoToEfiStatus E2BIG = EFI_BUFFER_TOO_SMALL"
| "ErrnoToEfiStatus EOVERFLOW = EFI_BUFFER_TOO_SMALL"
| "ErrnoToEfiStatus ERANGE = EFI_BUFFER_TOO_SMALL"
| "ErrnoToEfiStatus ENODEV = EFI_DEVICE_ERROR"
| "ErrnoToEfiStatus ENOEXEC = EFI_LOAD_ERROR"
| "ErrnoToEfiStatus ESPIPE = EFI_END_OF_FILE"
| "ErrnoToEfiStatus EFBIG = EFI_END_OF_MEDIA"
| "ErrnoToEfiStatus EBADF = EFI_INVALID_PARAMETER"
| "ErrnoToEfiStatus EDOM = EFI_INVALID_PARAMETER"
| "ErrnoToEfiStatus EFAULT = EFI_INVALID_PARAMETER"
| "ErrnoToEfiStatus EIDRM = EFI_INVALID_PARAMETER"
| "ErrnoToEfiStatus EILSEQ = EFI_INVALID_PARAMETER"
| "ErrnoToEfiStatus EINVAL = EFI_INVALID_PARAMETER"
| "ErrnoToEfiStatus ENAMETOOLONG = EFI_INVALID_PARAMETER"
| "ErrnoToEfiStatus EPROTOTYPE = EFI_INVALID_PARAMETER"
| "ErrnoToEfiStatus EMFILE = EFI_OUT_OF_RESOURCES"
| "ErrnoToEfiStatus EMLINK = EFI_OUT_OF_RESOURCES"
| "ErrnoToEfiStatus ENFILE = EFI_OUT_OF_RESOURCES"
| "ErrnoToEfiStatus ENOBUFS = EFI_OUT_OF_RESOURCES"
| "ErrnoToEfiStatus ENOLCK = EFI_OUT_OF_RESOURCES"
| "ErrnoToEfiStatus ENOLINK = EFI_OUT_OF_RESOURCES"
| "ErrnoToEfiStatus ENOMEM = EFI_OUT_OF_RESOURCES"
| "ErrnoToEfiStatus ENOSR = EFI_OUT_OF_RESOURCES"
| "ErrnoToEfiStatus EBADMSG = EFI_PROTOCOL_ERROR"
| "ErrnoToEfiStatus EISDIR = EFI_PROTOCOL_ERROR"
| "ErrnoToEfiStatus EIO = EFI_PROTOCOL_ERROR"
| "ErrnoToEfiStatus ENOMSG = EFI_PROTOCOL_ERROR"
| "ErrnoToEfiStatus ENOSTR = EFI_PROTOCOL_ERROR"
| "ErrnoToEfiStatus EPROTO = EFI_PROTOCOL_ERROR"
| "ErrnoToEfiStatus EBUSY = EFI_NO_RESPONSE"
| "ErrnoToEfiStatus ENODATA = EFI_NO_RESPONSE"
| "ErrnoToEfiStatus ECHILD = EFI_NOT_FOUND"
| "ErrnoToEfiStatus ENOENT = EFI_NOT_FOUND"
| "ErrnoToEfiStatus ENXIO = EFI_NOT_FOUND"
| "ErrnoToEfiStatus EAGAIN = EFI_NOT_READY"
| "ErrnoToEfiStatus EINTR = EFI_NOT_READY"
| "ErrnoToEfiStatus ESRCH = EFI_NOT_STARTED"
| "ErrnoToEfiStatus ETIME = EFI_TIMEOUT"
| "ErrnoToEfiStatus ETIMEDOUT = EFI_TIMEOUT"
| "ErrnoToEfiStatus EAFNOSUPPORT = EFI_UNSUPPORTED"
| "ErrnoToEfiStatus ENOPROTOOPT = EFI_UNSUPPORTED"
| "ErrnoToEfiStatus ENOSYS = EFI_UNSUPPORTED"
| "ErrnoToEfiStatus ENOTSUP = EFI_UNSUPPORTED"
| "ErrnoToEfiStatus ENOMEDIUM = EFI_NO_MEDIA"
| "ErrnoToEfiStatus ELOOP = EFI_VOLUME_CORRUPTED"
| "ErrnoToEfiStatus ENOTDIR = EFI_VOLUME_CORRUPTED"
| "ErrnoToEfiStatus ENOTEMPTY = EFI_VOLUME_CORRUPTED"
| "ErrnoToEfiStatus EXDEV = EFI_VOLUME_CORRUPTED"
| "ErrnoToEfiStatus ENOSPC = EFI_VOLUME_FULL"
| "ErrnoToEfiStatus EROFS = EFI_WRITE_PROTECTED"
| "ErrnoToEfiStatus EPERM = EFI_SECURITY_VIOLATION"
| "ErrnoToEfiStatus (Errno_other n) = EFI_NO_MAPPING"


section \<open>Data model\<close>

text \<open>
  Addresses of \<^verbatim>\<open>ntfs_inode\<close> structures (owned by libntfs-3g) and of \<^verbatim>\<open>EFI_NTFS_FILE\<close>
  records (owned by the caller). A pointer that may be \<^verbatim>\<open>NULL\<close> is an \<open>option\<close>.
  \<^verbatim>\<open>CHAR16\<close> strings are lists of characters without the terminating NUL.
\<close>

type_synonym ino_ptr = nat
type_synonym file_ptr = nat

definition PATH_CHAR :: char where
  "PATH_CHAR = CHR ''/''"


definition FILE_root :: nat where
  "FILE_root = 5"

definition FILE_Extend :: nat where
  "FILE_Extend = 11"

text \<open>
  The fields of \<^verbatim>\<open>ntfs_inode\<close> that the bridge reads or writes. \<open>NI_Dirty\<close> and
  \<open>NI_AttrListDirty\<close> are the two state bits tested by \<^verbatim>\<open>NInoDirty\<close> and
  \<^verbatim>\<open>NInoAttrListDirty\<close>; \<open>MFT_RECORD_IS_DIRECTORY\<close> is that bit of \<^verbatim>\<open>mrec->flags\<close>.
\<close>

record ntfs_inode =
  mft_no :: nat
  data_size :: int
  allocated_size :: int
  creation_time :: int
  last_access_time :: int
  last_data_change_time :: int
  flags :: "32 word"
  NI_Dirty :: bool
  NI_AttrListDirty :: bool
  MFT_RECORD_IS_DIRECTORY :: bool

text \<open>An open \<^verbatim>\<open>ntfs_attr\<close>: the inode it belongs to and its \<^verbatim>\<open>data_size\<close>.\<close>

record ntfs_attr =
  attr_ni :: "ino_ptr option"
  attr_data_size :: int

text \<open>
  \<^verbatim>\<open>EFI_NTFS_FILE\<close>. \<open>BaseName\<close> is the index in \<open>Path\<close> where the last component
  starts (the C field points into the \<^verbatim>\<open>Path\<close> buffer).
\<close>

record EFI_NTFS_FILE =
  IsDir :: bool
  IsRoot :: bool
  DirPos :: int
  Offset :: int
  Path :: string
  BaseName :: nat
  RefCount :: int
  NtfsInode :: "ino_ptr option"

record EFI_TIME =
  Year :: "16 word"
  Month :: "8 word"
  Day :: "8 word"
  Hour :: "8 word"
  Minute :: "8 word"
  Second :: "8 word"
  Pad1 :: "8 word"
  Nanosecond :: "32 word"
  TimeZone :: "16 word"
  Daylight :: "8 word"
  Pad2 :: "8 word"


datatype ntfs_time_update_flags = NTFS_UPDATE_MCTIME | NTFS_UPDATE_CTIME

text \<open>
  What libntfs-3g and the boot services see and change: \<^verbatim>\<open>errno\<close>, the memory of the
  inode structures, and the mounted volume (its caches and the disk), of a type \<open>'v\<close>
  left open.
\<close>

record 'v world =
  errno :: errno_t
  inodes :: "ino_ptr \<Rightarrow> ntfs_inode"
  vol :: 'v

text \<open>
  The calls that leave the bridge, each with its arguments and its result. The bridge keeps
  no such list; it is recorded in the state so that a theorem can say which calls an
  operation made.
\<close>

datatype extern_call =
    Call_inode_open nat "ino_ptr option"
  | Call_inode_close "ino_ptr option" int
  | Call_pathname_to_inode "ino_ptr option" string "ino_ptr option"
  | Call_delete "ino_ptr option" "ino_ptr option" string nat int
  | Call_link "ino_ptr option" "ino_ptr option" string nat int
  | Call_create ino_ptr string nat bool "ino_ptr option"
  | Call_inode_sync "ino_ptr option" int
  | Call_inode_update_times "ino_ptr option" ntfs_time_update_flags unit
  | Call_inode_update_mbsname "ino_ptr option" string nat unit
  | Call_forbidden_names string bool
  | Call_attr_open "ino_ptr option" "ntfs_attr option"
  | Call_attr_pread ntfs_attr int int nat int
  | Call_attr_truncate ntfs_attr int int
  | Call_attr_close ntfs_attr unit
  | Call_ucstombs string "int \<times> string"
  | Call_AllocatePool bool

text \<open>
  The functions of libntfs-3g and of the platform that the bridge calls; their code is not
  part of the bridge, so the bridge is modelled for any behaviour of them. Each takes the
  world and returns its result with the world it leaves. \<open>op_AllocatePool\<close> tells whether
  a pool allocation (\<^verbatim>\<open>AllocatePool\<close>, \<^verbatim>\<open>StrDup\<close>) is granted.
\<close>

record 'v ntfs_ops =
  op_inode_open :: "'v world \<Rightarrow> nat \<Rightarrow> ino_ptr option \<times> 'v world"
  op_inode_close :: "'v world \<Rightarrow> ino_ptr option \<Rightarrow> int \<times> 'v world"
  op_pathname_to_inode :: "'v world \<Rightarrow> ino_ptr option \<Rightarrow> string \<Rightarrow> ino_ptr option \<times> 'v world"
  op_delete :: "'v world \<Rightarrow> ino_ptr option \<Rightarrow> ino_ptr option \<Rightarrow> string \<Rightarrow> nat \<Rightarrow> int \<times> 'v world"
  op_link :: "'v world \<Rightarrow> ino_ptr option \<Rightarrow> ino_ptr option \<Rightarrow> string \<Rightarrow> nat \<Rightarrow> int \<times> 'v world"
  op_create :: "'v world \<Rightarrow> ino_ptr \<Rightarrow> string \<Rightarrow> nat \<Rightarrow> bool \<Rightarrow> ino_ptr option \<times> 'v world"
  op_inode_sync :: "'v world \<Rightarrow> ino_ptr option \<Rightarrow> int \<times> 'v world"
  op_inode_update_times :: "'v world \<Rightarrow> ino_ptr option \<Rightarrow> ntfs_time_update_flags \<Rightarrow> unit \<times> 'v world"
  op_inode_update_mbsname :: "'v world \<Rightarrow> ino_ptr option \<Rightarrow> string \<Rightarrow> nat \<Rightarrow> unit \<times> 'v world"
  op_forbidden_names :: "'v world \<Rightarrow> string \<Rightarrow> bool \<times> 'v world"
  op_attr_open :: "'v world \<Rightarrow> ino_ptr option \<Rightarrow> ntfs_attr option \<times> 'v world"
  op_attr_pread :: "'v world \<Rightarrow> ntfs_attr \<Rightarrow> int \<Rightarrow> int \<Rightarrow> nat \<Rightarrow> int \<times> 'v world"
  op_attr_truncate :: "'v world \<Rightarrow> ntfs_attr \<Rightarrow> int \<Rightarrow> int \<times> 'v world"
  op_attr_close :: "'v world \<Rightarrow> ntfs_attr \<Rightarrow> unit \<times> 'v world"
  op_ucstombs :: "'v world \<Rightarrow> string \<Rightarrow> (int \<times> string) \<times> 'v world"
  op_AllocatePool :: "'v world \<Rightarrow> bool \<times> 'v world"
  NVolReadOnly :: "'v \<Rightarrow> bool"
  GetInodeNumber :: "nat \<Rightarrow> nat"
  CleanPath :: "string \<Rightarrow> string"
  EfiTimeToNtfsTime :: "EFI_TIME \<Rightarrow> int"

text \<open>
  One mounted volume (\<^verbatim>\<open>EFI_FS\<close>): the lookup list, in list order, as the addresses of
  the records its entries point to; the memory of the allocated \<^verbatim>\<open>EFI_NTFS_FILE\<close> records;
  the world; and the calls made so far.
\<close>

record 'v state =
  LookupListHead :: "file_ptr list"
  Files :: "file_ptr \<rightharpoonup> EFI_NTFS_FILE"
  World :: "'v world"
  Calls :: "extern_call list"

definition extern :: "('v world \<Rightarrow> 'r \<times> 'v world) \<Rightarrow> ('r \<Rightarrow> extern_call) \<Rightarrow> 'v state \<Rightarrow> 'r \<times> 'v state" where
  "extern f tag s =
     (let (r, w) = f (World s) in (r, s\<lparr>World := w, Calls := Calls s @ [tag r]\<rparr>))"

definition ntfs_inode_open :: "'v ntfs_ops \<Rightarrow> 'v state \<Rightarrow> nat \<Rightarrow> ino_ptr option \<times> 'v state" where
  "ntfs_inode_open ops s mref = extern (\<lambda>w. op_inode_open ops w mref) (Call_inode_open mref) s"

definition ntfs_inode_close :: "'v ntfs_ops \<Rightarrow> 'v state \<Rightarrow> ino_ptr option \<Rightarrow> int \<times> 'v state" where
  "ntfs_inode_close ops s ni = extern (\<lambda>w. op_inode_close ops w ni) (Call_inode_close ni) s"

definition ntfs_pathname_to_inode ::
  "'v ntfs_ops \<Rightarrow> 'v state \<Rightarrow> ino_ptr option \<Rightarrow> string \<Rightarrow> ino_ptr option \<times> 'v state" where
  "ntfs_pathname_to_inode ops s parent path =
     extern (\<lambda>w. op_pathname_to_inode ops w parent path) (Call_pathname_to_inode parent path) s"

definition ntfs_delete ::
  "'v ntfs_ops \<Rightarrow> 'v state \<Rightarrow> ino_ptr option \<Rightarrow> ino_ptr option \<Rightarrow> string \<Rightarrow> nat \<Rightarrow> int \<times> 'v state" where
  "ntfs_delete ops s ni dir_ni name len =
     extern (\<lambda>w. op_delete ops w ni dir_ni name len) (Call_delete ni dir_ni name len) s"

definition ntfs_link ::
  "'v ntfs_ops \<Rightarrow> 'v state \<Rightarrow> ino_ptr option \<Rightarrow> ino_ptr option \<Rightarrow> string \<Rightarrow> nat \<Rightarrow> int \<times> 'v state" where
  "ntfs_link ops s ni dir_ni name len =
     extern (\<lambda>w. op_link ops w ni dir_ni name len) (Call_link ni dir_ni name len) s"

definition ntfs_create ::
  "'v ntfs_ops \<Rightarrow> 'v state \<Rightarrow> ino_ptr \<Rightarrow> string \<Rightarrow> nat \<Rightarrow> bool \<Rightarrow> ino_ptr option \<times> 'v state" where
  "ntfs_create ops s dir_ni name len isdir =
     extern (\<lambda>w. op_create ops w dir_ni name len isdir) (Call_create dir_ni name len isdir) s"

definition ntfs_inode_sync :: "'v ntfs_ops \<Rightarrow> 'v state \<Rightarrow> ino_ptr option \<Rightarrow> int \<times> 'v state" where
  "ntfs_inode_sync ops s ni = extern (\<lambda>w. op_inode_sync ops w ni) (Call_inode_sync ni) s"

definition ntfs_inode_update_times ::
  "'v ntfs_ops \<Rightarrow> 'v state \<Rightarrow> ino_ptr option \<Rightarrow> ntfs_time_update_flags \<Rightarrow> unit \<times> 'v state" where
  "ntfs_inode_update_times ops s ni upd =
     extern (\<lambda>w. op_inode_update_times ops w ni upd) (Call_inode_update_times ni upd) s"

definition ntfs_inode_update_mbsname ::
  "'v ntfs_ops \<Rightarrow> 'v state \<Rightarrow> ino_ptr option \<Rightarrow> string \<Rightarrow> nat \<Rightarrow> unit \<times> 'v state" where
  "ntfs_inode_update_mbsname ops s dir_ni name inum =
     extern (\<lambda>w. op_inode_update_mbsname ops w dir_ni name inum)
       (Call_inode_update_mbsname dir_ni name inum) s"

definition ntfs_forbidden_names :: "'v ntfs_ops \<Rightarrow> 'v state \<Rightarrow> string \<Rightarrow> bool \<times> 'v state" where
  "ntfs_forbidden_names ops s name =
     extern (\<lambda>w. op_forbidden_names ops w name) (Call_forbidden_names name) s"

definition ntfs_attr_open :: "'v ntfs_ops \<Rightarrow> 'v state \<Rightarrow> ino_ptr option \<Rightarrow> ntfs_attr option \<times> 'v state" where
  "ntfs_attr_open ops s ni = extern (\<lambda>w. op_attr_open ops w ni) (Call_attr_open ni) s"

definition ntfs_attr_pread ::
  "'v ntfs_ops \<Rightarrow> 'v state \<Rightarrow> ntfs_attr \<Rightarrow> int \<Rightarrow> int \<Rightarrow> nat \<Rightarrow> int \<times> 'v state" where
  "ntfs_attr_pread ops s na pos count buf =
     extern (\<lambda>w. op_attr_pread ops w na pos count buf) (Call_attr_pread na pos count buf) s"

definition ntfs_attr_truncate :: "'v ntfs_ops \<Rightarrow> 'v state \<Rightarrow> ntfs_attr \<Rightarrow> int \<Rightarrow> int \<times> 'v state" where
  "ntfs_attr_truncate ops s na newsize =
     extern (\<lambda>w. op_attr_truncate ops w na newsize) (Call_attr_truncate na newsize) s"

definition ntfs_attr_close :: "'v ntfs_ops \<Rightarrow> 'v state \<Rightarrow> ntfs_attr \<Rightarrow> unit \<times> 'v state" where
  "ntfs_attr_close ops s na = extern (\<lambda>w. op_attr_close ops w na) (Call_attr_close na) s"

text \<open>\<^verbatim>\<open>to_utf8\<close>: \<^verbatim>\<open>ntfs_ucstombs\<close> gives the length (negative on failure) and the converted string.\<close>

definition to_utf8 :: "'v ntfs_ops \<Rightarrow> 'v state \<Rightarrow> string \<Rightarrow> (int \<times> string) \<times> 'v state" where
  "to_utf8 ops s Src = extern (\<lambda>w. op_ucstombs ops w Src) (Call_ucstombs Src) s"

definition AllocatePool :: "'v ntfs_ops \<Rightarrow> 'v state \<Rightarrow> bool \<times> 'v state" where
  "AllocatePool ops s = extern (op_AllocatePool ops) Call_AllocatePool s"


definition IS_DIRTY :: "'v state \<Rightarrow> ino_ptr \<Rightarrow> bool" where
  "IS_DIRTY s ni = (NI_Dirty (inodes (World s) ni) \<or> NI_AttrListDirty (inodes (World s) ni))"

text \<open>Writing one record of the \<^verbatim>\<open>EFI_NTFS_FILE\<close> memory.\<close>

definition put_File :: "'v state \<Rightarrow> file_ptr \<Rightarrow> EFI_NTFS_FILE \<Rightarrow> 'v state" where
  "put_File s File f = s\<lparr>Files := (Files s)(File \<mapsto> f)\<rparr>"


section \<open>The lookup list\<close>

text \<open>
  \<^verbatim>\<open>NtfsLookup\<close>, from an entry of the list on. \<open>Self\<close> is the address of the \<^verbatim>\<open>File\<close>
  argument (\<open>None\<close> for a record on the caller's stack, which is no entry's record) and
  \<open>P\<close> the string its \<^verbatim>\<open>Path\<close> holds during the call. The outer \<open>None\<close> is a read
  through a pointer that is \<^verbatim>\<open>NULL\<close> or not allocated, where the C program has no
  defined result; \<open>Some None\<close> is the result \<^verbatim>\<open>NULL\<close>.
\<close>

fun NtfsLookup_from ::
  "(file_ptr \<rightharpoonup> EFI_NTFS_FILE) \<Rightarrow> (ino_ptr \<Rightarrow> ntfs_inode) \<Rightarrow> (nat \<Rightarrow> nat) \<Rightarrow>
   file_ptr option \<Rightarrow> string \<Rightarrow> nat \<Rightarrow> bool \<Rightarrow> file_ptr list \<Rightarrow> file_ptr option option" where
  "NtfsLookup_from F I gin Self P Inum IgnoreSelf [] = Some None"
| "NtfsLookup_from F I gin Self P Inum IgnoreSelf (Entry # rest) =
     (if Inum = 0 then
        (if IgnoreSelf \<and> Some Entry = Self then
           NtfsLookup_from F I gin Self P Inum IgnoreSelf rest
         else
           (case F Entry of
              None \<Rightarrow> None
            | Some ef \<Rightarrow>
                if P = [] \<and> IsRoot ef then Some (Some Entry)
                else if P = Path ef then Some (Some Entry)
                else NtfsLookup_from F I gin Self P Inum IgnoreSelf rest))
      else
        (case F Entry of
           None \<Rightarrow> None
         | Some ef \<Rightarrow>
             (case NtfsInode ef of
                None \<Rightarrow> None
              | Some ni \<Rightarrow>
                  if mft_no (I ni) = gin Inum then Some (Some Entry)
                  else NtfsLookup_from F I gin Self P Inum IgnoreSelf rest)))"

definition NtfsLookup ::
  "'v ntfs_ops \<Rightarrow> 'v state \<Rightarrow> file_ptr option \<Rightarrow> string \<Rightarrow> nat \<Rightarrow> bool \<Rightarrow> file_ptr option option" where
  "NtfsLookup ops s Self P Inum IgnoreSelf =
     NtfsLookup_from (Files s) (inodes (World s)) (GetInodeNumber ops) Self P Inum IgnoreSelf
       (LookupListHead s)"

definition NtfsLookupPath :: "'v ntfs_ops \<Rightarrow> 'v state \<Rightarrow> file_ptr \<Rightarrow> bool \<Rightarrow> file_ptr option option" where
  "NtfsLookupPath ops s File IgnoreSelf =
     do { f \<leftarrow> Files s File; NtfsLookup ops s (Some File) (Path f) 0 IgnoreSelf }"

definition NtfsLookupInum :: "'v ntfs_ops \<Rightarrow> 'v state \<Rightarrow> file_ptr \<Rightarrow> nat \<Rightarrow> file_ptr option option" where
  "NtfsLookupInum ops s File Inum =
     do { f \<leftarrow> Files s File; NtfsLookup ops s (Some File) (Path f) Inum False }"

text \<open>
  \<^verbatim>\<open>File->BaseName[-1] = 0\<close> cuts the string in \<^verbatim>\<open>Path\<close> just before the last component,
  in place; \<^verbatim>\<open>File->BaseName[-1] = PATH_CHAR\<close> puts it back. \<open>BaseName\<close> has to point
  behind the first character of the buffer for the write to be inside it.
\<close>

definition dirname :: "EFI_NTFS_FILE \<Rightarrow> string option" where
  "dirname f =
     (if 1 \<le> BaseName f \<and> BaseName f \<le> length (Path f)
      then Some (take (BaseName f - 1) (Path f)) else None)"

definition cut_BaseName :: "'v state \<Rightarrow> file_ptr \<Rightarrow> 'v state option" where
  "cut_BaseName s File =
     do { f \<leftarrow> Files s File; d \<leftarrow> dirname f; Some (put_File s File (f\<lparr>Path := d\<rparr>)) }"

definition restore_BaseName :: "'v state \<Rightarrow> file_ptr \<Rightarrow> string \<Rightarrow> 'v state option" where
  "restore_BaseName s File whole =
     do { f \<leftarrow> Files s File; Some (put_File s File (f\<lparr>Path := whole\<rparr>)) }"

definition NtfsLookupParent :: "'v ntfs_ops \<Rightarrow> 'v state \<Rightarrow> file_ptr \<Rightarrow> file_ptr option option" where
  "NtfsLookupParent ops s File =
     do { s' \<leftarrow> cut_BaseName s File; NtfsLookupPath ops s' File True }"

text \<open>\<^verbatim>\<open>NtfsLookupAdd\<close>: nothing is added when the entry cannot be allocated.\<close>

definition NtfsLookupAdd :: "'v ntfs_ops \<Rightarrow> 'v state \<Rightarrow> file_ptr \<Rightarrow> 'v state" where
  "NtfsLookupAdd ops s File =
     (let (Entry, s1) = AllocatePool ops s
      in if Entry then s1\<lparr>LookupListHead := LookupListHead s1 @ [File]\<rparr> else s1)"

text \<open>\<^verbatim>\<open>NtfsLookupRem\<close>: the first entry for the record is unlinked, then the loop returns.\<close>

definition NtfsLookupRem :: "'v state \<Rightarrow> file_ptr \<Rightarrow> 'v state" where
  "NtfsLookupRem s File = s\<lparr>LookupListHead := remove1 File (LookupListHead s)\<rparr>"

section \<open>Opening an inode from a path\<close>

text \<open>
  \<^verbatim>\<open>while (TmpPath[--Len] != PATH_CHAR);\<close> The index of the last separator before \<open>Len\<close>;
  without one the loop reads before the buffer.
\<close>

fun scan_back :: "string \<Rightarrow> nat \<Rightarrow> nat option" where
  "scan_back p 0 = None"
| "scan_back p (Suc n) = (if p ! n = PATH_CHAR then Some n else scan_back p n)"

lemma scan_back_less: "scan_back p n = Some j \<Longrightarrow> j < n"
  by (induction n) (auto split: if_splits)

text \<open>
  The loop of \<^verbatim>\<open>NtfsOpenInodeFromPath\<close> that goes down the path to the closest directory
  with a registered record: the record found (or \<^verbatim>\<open>NULL\<close>) and the final \<^verbatim>\<open>Len\<close>.
\<close>

function closest_open_dir ::
  "'v ntfs_ops \<Rightarrow> 'v state \<Rightarrow> string \<Rightarrow> nat \<Rightarrow> (file_ptr option \<times> nat) option" where
  "closest_open_dir ops s TmpPath Len =
     (if Len > 0 then
        (case scan_back TmpPath Len of
           None \<Rightarrow> None
         | Some j \<Rightarrow>
             (case NtfsLookup ops s None (take j TmpPath) 0 False of
                None \<Rightarrow> None
              | Some (Some Parent) \<Rightarrow> Some (Some Parent, j)
              | Some None \<Rightarrow> closest_open_dir ops s TmpPath j))
      else Some (None, Len))"
  by pat_completeness auto
termination
  by (relation "measure (\<lambda>(ops, s, TmpPath, Len). Len)") (auto dest: scan_back_less)

declare closest_open_dir.simps [simp del]

definition NtfsOpenInodeFromPath ::
  "'v ntfs_ops \<Rightarrow> 'v state \<Rightarrow> string \<Rightarrow> (ino_ptr option \<times> 'v state) option" where
  "NtfsOpenInodeFromPath ops s P =
     (if P = [] \<or> P = [PATH_CHAR] then Some (ntfs_inode_open ops s FILE_root)
      else
        (let (TmpPath, s1) = AllocatePool ops s in
         if \<not> TmpPath then Some (None, s1)
         else do {
           (Parent, Len) \<leftarrow> closest_open_dir ops s1 P (length P);
           let ((sz, path), s2) = to_utf8 ops s1 (drop (Len + 1) P);
           if sz < 0 then Some (None, s2)
           else do {
             dir \<leftarrow> (case Parent of
                       None \<Rightarrow> Some None
                     | Some Pa \<Rightarrow> do { pf \<leftarrow> Files s2 Pa; Some (NtfsInode pf) });
             Some (ntfs_pathname_to_inode ops s2 dir path)
           }
         }))"

section \<open>Open, close, flush and delete\<close>

text \<open>\<^verbatim>\<open>NtfsFreeFile\<close>: the record is released only when it has no reference left.\<close>

definition NtfsFreeFile :: "'v state \<Rightarrow> file_ptr option \<Rightarrow> 'v state option" where
  "NtfsFreeFile s FileP =
     (case FileP of
        None \<Rightarrow> Some s
      | Some File \<Rightarrow>
          do { f \<leftarrow> Files s File;
               Some (if RefCount f \<le> 0 then s\<lparr>Files := (Files s)(File := None)\<rparr> else s) })"

definition set_NtfsInode :: "'v state \<Rightarrow> file_ptr \<Rightarrow> ino_ptr option \<Rightarrow> 'v state option" where
  "set_NtfsInode s File ni =
     do { f \<leftarrow> Files s File; Some (put_File s File (f\<lparr>NtfsInode := ni\<rparr>)) }"


text \<open>
  The reopening of a parent whose inode was closed around a call, as written in
  \<^verbatim>\<open>NtfsCloseFile\<close>, \<^verbatim>\<open>NtfsFlushFile\<close> and \<^verbatim>\<open>NtfsDeleteFile\<close>:
  \<^verbatim>\<open>Parent->NtfsInode = ntfs_inode_open(...); if (Parent->NtfsInode == NULL) { PrintError(...); NtfsLookupRem(Parent); }\<close>.
  The result tells whether the inode was reopened.
\<close>

definition reopen_Parent ::
  "'v ntfs_ops \<Rightarrow> 'v state \<Rightarrow> file_ptr \<Rightarrow> nat \<Rightarrow> (bool \<times> 'v state) option" where
  "reopen_Parent ops s Parent parent_inum =
     (let (ni, s1) = ntfs_inode_open ops s parent_inum in
      do {
        s2 \<leftarrow> set_NtfsInode s1 Parent ni;
        Some (if ni = None then (False, NtfsLookupRem s2 Parent) else (True, s2))
      })"

text \<open>
  The closing of a registered parent before a call that may sync:
  \<^verbatim>\<open>parent_inum = ((ntfs_inode*)Parent->NtfsInode)->mft_no; ntfs_inode_close(Parent->NtfsInode);\<close>
\<close>

definition close_Parent ::
  "'v ntfs_ops \<Rightarrow> 'v state \<Rightarrow> file_ptr \<Rightarrow> (nat \<times> 'v state) option" where
  "close_Parent ops s Parent =
     do {
       pf \<leftarrow> Files s Parent;
       pni \<leftarrow> NtfsInode pf;
       Some (mft_no (inodes (World s) pni), snd (ntfs_inode_close ops s (Some pni)))
     }"


definition NtfsFlushFile ::
  "'v ntfs_ops \<Rightarrow> 'v state \<Rightarrow> file_ptr \<Rightarrow> (EFI_STATUS \<times> 'v state) option" where
  "NtfsFlushFile ops s File =
     do {
       f \<leftarrow> Files s File;
       ni \<leftarrow> NtfsInode f;
       if \<not> NI_Dirty (inodes (World s) ni) \<and> NI_AttrListDirty (inodes (World s) ni)
       then Some (EFI_SUCCESS, s)
       else do {
         Parent \<leftarrow> NtfsLookupParent ops s File;
         (parent_inum, s1) \<leftarrow>
           (case Parent of
              None \<Rightarrow> Some (0, s)
            | Some Pa \<Rightarrow> close_Parent ops s Pa);
         f1 \<leftarrow> Files s1 File;
         let (r, s2) = ntfs_inode_sync ops s1 (NtfsInode f1);
         let Status = (if r < 0 then ErrnoToEfiStatus (errno (World s2)) else EFI_SUCCESS);
         s3 \<leftarrow> (case Parent of
                 None \<Rightarrow> Some s2
               | Some Pa \<Rightarrow> map_option snd (reopen_Parent ops s2 Pa parent_inum));
         Some (Status, s3)
       }
     }"

text \<open>
  \<^verbatim>\<open>NtfsDeleteFile\<close> from the test for \<^verbatim>\<open>$Extend\<close> on, with the values the first part
  leaves in \<^verbatim>\<open>Parent\<close>, \<^verbatim>\<open>parent_inum\<close>, \<^verbatim>\<open>GrandParent\<close>, \<^verbatim>\<open>grandparent_inum\<close> and
  \<^verbatim>\<open>dir_ni\<close>.
\<close>

definition NtfsDeleteFile_tail ::
  "'v ntfs_ops \<Rightarrow> 'v state \<Rightarrow> file_ptr \<Rightarrow> file_ptr option \<Rightarrow> nat \<Rightarrow> file_ptr option \<Rightarrow> nat \<Rightarrow>
   ino_ptr \<Rightarrow> (EFI_STATUS \<times> 'v state) option" where
  "NtfsDeleteFile_tail ops s File Parent parent_inum GrandParent grandparent_inum dir_ni =
     (if mft_no (inodes (World s) dir_ni) = FILE_Extend then Some (EFI_ACCESS_DENIED, s)
      else do {
        f \<leftarrow> Files s File;
        let name = drop (BaseName f) (Path f);
        let (r, s1) = ntfs_delete ops s (NtfsInode f) (Some dir_ni) name (length name mod 256);
        let s2 = NtfsLookupRem s1 File;
        if r < 0 then Some (EFI_WARN_DELETE_FAILURE, s2)
        else do {
          s3 \<leftarrow> set_NtfsInode s2 File None;
          (pok, s4) \<leftarrow> (case Parent of
                         None \<Rightarrow> Some (True, s3)
                       | Some Pa \<Rightarrow> reopen_Parent ops s3 Pa parent_inum);
          if \<not> pok then Some (ErrnoToEfiStatus (errno (World s4)), s4)
          else do {
            (gok, s5) \<leftarrow> (case GrandParent of
                           None \<Rightarrow> Some (True, s4)
                         | Some G \<Rightarrow> reopen_Parent ops s4 G grandparent_inum);
            if \<not> gok then Some (ErrnoToEfiStatus (errno (World s5)), s5)
            else Some (EFI_SUCCESS, s5)
          }
        }
      })"

definition NtfsDeleteFile ::
  "'v ntfs_ops \<Rightarrow> 'v state \<Rightarrow> file_ptr \<Rightarrow> (EFI_STATUS \<times> 'v state) option" where
  "NtfsDeleteFile ops s File =
     do {
       Parent \<leftarrow> NtfsLookupParent ops s File;
       case Parent of
         None \<Rightarrow>
           do {
             f \<leftarrow> Files s File;
             s0 \<leftarrow> cut_BaseName s File;
             f0 \<leftarrow> Files s0 File;
             (dir, s1) \<leftarrow> NtfsOpenInodeFromPath ops s0 (Path f0);
             s2 \<leftarrow> restore_BaseName s1 File (Path f);
             case dir of
               None \<Rightarrow> Some (ErrnoToEfiStatus (errno (World s2)), s2)
             | Some dir_ni \<Rightarrow> NtfsDeleteFile_tail ops s2 File None 0 None 0 dir_ni
           }
       | Some Pa \<Rightarrow>
           do {
             GrandParent \<leftarrow> NtfsLookupParent ops s Pa;
             (GP, grandparent_inum, s1) \<leftarrow>
               (case GrandParent of
                  None \<Rightarrow> Some (None, 0, s)
                | Some G \<Rightarrow>
                    do {
                      g \<leftarrow> Files s G;
                      if IsRoot g then Some (None, 0, s)
                      else do { (inum, s') \<leftarrow> close_Parent ops s G; Some (Some G, inum, s') }
                    });
             pf \<leftarrow> Files s1 Pa;
             dir_ni \<leftarrow> NtfsInode pf;
             NtfsDeleteFile_tail ops s1 File (Some Pa) (mft_no (inodes (World s1) dir_ni))
               GP grandparent_inum dir_ni
           }
     }"


section \<open>Create\<close>





definition update_inode :: "'v state \<Rightarrow> ino_ptr \<Rightarrow> (ntfs_inode \<Rightarrow> ntfs_inode) \<Rightarrow> 'v state" where
  "update_inode s ni g =
     s\<lparr>World := (World s)\<lparr>inodes := (inodes (World s))(ni := g (inodes (World s) ni))\<rparr>\<rparr>"



section \<open>Read\<close>







section \<open>Move\<close>

text \<open>The local variables of \<^verbatim>\<open>NtfsMoveFile\<close> that the code after the label \<^verbatim>\<open>out\<close> reads.\<close>

record move_locals =
  mv_Parent :: "file_ptr option"
  mv_NewParent :: "file_ptr option"
  mv_SameDir :: bool
  mv_ParentIsChildOfNewParent :: bool
  mv_parent_ni :: "ino_ptr option"
  mv_newparent_ni :: "ino_ptr option"
  mv_parent_inum :: nat
  mv_newparent_inum :: nat

text \<open>
  The block \<^verbatim>\<open>if (!SameDir)\<close> of \<^verbatim>\<open>NtfsMoveFile\<close>: the inode of the new parent directory,
  and whether the old parent is a child of the new one. \<open>f\<close> is the record of \<^verbatim>\<open>File\<close>,
  \<open>NewDir\<close> the part of \<^verbatim>\<open>NewPath\<close> before the separator that \<^verbatim>\<open>NewPath[Len] = 0\<close>
  overwrites. The result is \<open>Some Status\<close> where the code jumps to \<^verbatim>\<open>out\<close>, \<open>None\<close> where
  it goes on.
\<close>

definition NtfsMoveFile_newparent ::
  "'v ntfs_ops \<Rightarrow> 'v state \<Rightarrow> EFI_NTFS_FILE \<Rightarrow> string \<Rightarrow> ino_ptr option \<Rightarrow> move_locals \<Rightarrow>
   ((EFI_STATUS option \<times> move_locals) \<times> 'v state) option" where
  "NtfsMoveFile_newparent ops s3 f NewDir parent_ni lv1 =
     do {
       NewParent \<leftarrow> NtfsLookup ops s3 None NewDir 0 True;
       (newparent_ni, parent_ni', s4) \<leftarrow>
         (case NewParent of
            Some NP \<Rightarrow> do { nf \<leftarrow> Files s3 NP; Some (NtfsInode nf, parent_ni, s3) }
          | None \<Rightarrow>
              do {
                let sa = snd (ntfs_inode_close ops s3 parent_ni);
                (nn, sb) \<leftarrow> NtfsOpenInodeFromPath ops sa NewDir;
                let (pn, sc) = ntfs_inode_open ops sb (mv_parent_inum lv1);
                Some (nn, pn, sc)
              });
       let lv2 = lv1\<lparr>mv_NewParent := NewParent, mv_newparent_ni := newparent_ni,
                     mv_parent_ni := parent_ni'\<rparr>;
       case newparent_ni of
         None \<Rightarrow> Some ((Some (ErrnoToEfiStatus (errno (World s4))), lv2), s4)
       | Some nni \<Rightarrow>
           do {
             d \<leftarrow> dirname f;
             pic \<leftarrow> (if length d > 0 then
                       (case scan_back d (length d) of
                          None \<Rightarrow> None
                        | Some j \<Rightarrow> Some (take j d = NewDir))
                     else Some False);
             Some ((None, lv2\<lparr>mv_newparent_inum := mft_no (inodes (World s4) nni),
                              mv_ParentIsChildOfNewParent := pic\<rparr>), s4)
           }
     }"

text \<open>
  \<^verbatim>\<open>NtfsMoveFile\<close> from \<^verbatim>\<open>Parent = NtfsLookupParent(File)\<close> to the end of the block
  \<^verbatim>\<open>if (!SameDir)\<close>. \<open>NewDir\<close> and \<open>NewBase\<close> are the two parts of \<^verbatim>\<open>NewPath\<close> around
  the separator that \<^verbatim>\<open>NewPath[Len] = 0\<close> overwrites. The result is \<open>Some Status\<close> where
  the code jumps to \<^verbatim>\<open>out\<close>, \<open>None\<close> where it goes on.
\<close>

definition NtfsMoveFile_parents ::
  "'v ntfs_ops \<Rightarrow> 'v state \<Rightarrow> file_ptr \<Rightarrow> string \<Rightarrow> string \<Rightarrow>
   ((EFI_STATUS option \<times> move_locals) \<times> 'v state) option" where
  "NtfsMoveFile_parents ops s File NewDir NewBase =
     do {
       Parent \<leftarrow> NtfsLookupParent ops s File;
       f \<leftarrow> Files s File;
       s0 \<leftarrow> cut_BaseName s File;
       f0 \<leftarrow> Files s0 File;
       let SameDir = (NewDir = Path f0);
       (parent_ni, s1) \<leftarrow>
         (case Parent of
            None \<Rightarrow> NtfsOpenInodeFromPath ops s0 (Path f0)
          | Some Pa \<Rightarrow> do { pf \<leftarrow> Files s0 Pa; Some (NtfsInode pf, s0) });
       s2 \<leftarrow> restore_BaseName s1 File (Path f);
       let lv = \<lparr>mv_Parent = Parent, mv_NewParent = None, mv_SameDir = SameDir,
                 mv_ParentIsChildOfNewParent = False, mv_parent_ni = parent_ni,
                 mv_newparent_ni = None, mv_parent_inum = 0, mv_newparent_inum = 0\<rparr>;
       case parent_ni of
         None \<Rightarrow> Some ((Some (ErrnoToEfiStatus (errno (World s2))), lv), s2)
       | Some pni \<Rightarrow>
           (let lv1 = lv\<lparr>mv_parent_inum := mft_no (inodes (World s2) pni)\<rparr>;
                (forbidden, s3) = ntfs_forbidden_names ops s2 NewBase
            in
            if forbidden then Some ((Some EFI_INVALID_PARAMETER, lv1), s3)
            else if SameDir then Some ((None, lv1), s3)
            else NtfsMoveFile_newparent ops s3 f NewDir parent_ni lv1)
     }"

text \<open>
  \<^verbatim>\<open>NtfsMoveFile\<close> after the old name is deleted, from \<^verbatim>\<open>File->NtfsInode = NULL\<close> to
  \<^verbatim>\<open>Status = EFI_SUCCESS\<close>: the parents are reopened and the inode is opened again
  under its new name.
\<close>

definition NtfsMoveFile_update ::
  "'v ntfs_ops \<Rightarrow> 'v state \<Rightarrow> file_ptr \<Rightarrow> string \<Rightarrow> move_locals \<Rightarrow>
   ((EFI_STATUS \<times> move_locals) \<times> 'v state) option" where
  "NtfsMoveFile_update ops s4 File NewBase lv =
     do {
       s5 \<leftarrow> set_NtfsInode s4 File None;
       let (pn, s6) = ntfs_inode_open ops s5 (mv_parent_inum lv);
       let (nn, s7) = (if \<not> mv_SameDir lv then ntfs_inode_open ops s6 (mv_newparent_inum lv)
                       else (mv_newparent_ni lv, s6));
       let lv1 = lv\<lparr>mv_parent_ni := pn, mv_newparent_ni := nn\<rparr>;
       let ((sz, basename), s8) = to_utf8 ops s7 NewBase;
       _ \<leftarrow> pn;
       let (ni', s9) = ntfs_pathname_to_inode ops s8 (if mv_SameDir lv then pn else nn) basename;
       case ni' of
         None \<Rightarrow> Some ((ErrnoToEfiStatus (errno (World s9)), lv1), s9)
       | Some n \<Rightarrow>
           do {
             s10 \<leftarrow> set_NtfsInode s9 File ni';
             let s11 = snd (ntfs_inode_update_mbsname ops s10
                              (if mv_SameDir lv then pn else nn) basename
                              (mft_no (inodes (World s10) n)));
             let s12 = (if \<not> mv_SameDir lv
                        then snd (ntfs_inode_update_times ops s11 nn NTFS_UPDATE_MCTIME)
                        else s11);
             let s13 = snd (ntfs_inode_update_times ops s12 pn NTFS_UPDATE_MCTIME);
             let s14 = snd (ntfs_inode_update_times ops s13 ni' NTFS_UPDATE_CTIME);
             Some ((EFI_SUCCESS, lv1), s14)
           }
     }"

text \<open>
  \<^verbatim>\<open>NtfsMoveFile\<close> from \<^verbatim>\<open>NewPath[Len] = PATH_CHAR\<close> to \<^verbatim>\<open>Status = EFI_SUCCESS\<close>: the link
  under the new name, the deletion of the old name, and the reopening of the inode.
\<close>

definition NtfsMoveFile_relink ::
  "'v ntfs_ops \<Rightarrow> 'v state \<Rightarrow> file_ptr \<Rightarrow> string \<Rightarrow> nat \<Rightarrow> move_locals \<Rightarrow>
   ((EFI_STATUS \<times> move_locals) \<times> 'v state) option" where
  "NtfsMoveFile_relink ops s File NewPath Len lv =
     do {
       f \<leftarrow> Files s File;
       let ni = NtfsInode f;
       let NewBase = drop (Len + 1) NewPath;
       let (r, s1) = ntfs_link ops s ni
                       (if mv_SameDir lv then mv_parent_ni lv else mv_newparent_ni lv)
                       NewBase (length NewBase mod 256);
       if r \<noteq> 0 then Some ((ErrnoToEfiStatus (errno (World s1)), lv), s1)
       else do {
         let OldBaseName = drop (BaseName f) (Path f);
         f1 \<leftarrow> Files s1 File;
         let s2 = put_File s1 File (f1\<lparr>Path := NewPath, BaseName := Len + 1\<rparr>);
         let s3 = (if \<not> mv_SameDir lv then snd (ntfs_inode_close ops s2 (mv_newparent_ni lv)) else s2);
         _ \<leftarrow> ni;
         let (r2, s4) = ntfs_delete ops s3 ni (mv_parent_ni lv) OldBaseName
                          (length OldBaseName mod 256);
         if r2 \<noteq> 0 then Some ((ErrnoToEfiStatus (errno (World s4)), lv), s4)
         else NtfsMoveFile_update ops s4 File NewBase lv
       }
     }"

text \<open>\<^verbatim>\<open>NtfsMoveFile\<close> after the label \<^verbatim>\<open>out\<close>.\<close>

definition NtfsMoveFile_out ::
  "'v ntfs_ops \<Rightarrow> 'v state \<Rightarrow> move_locals \<Rightarrow> EFI_STATUS \<Rightarrow> (EFI_STATUS \<times> 'v state) option" where
  "NtfsMoveFile_out ops s lv Status =
     do {
       s1 \<leftarrow> (if mv_ParentIsChildOfNewParent lv then
                 (case mv_NewParent lv of
                    None \<Rightarrow> Some (snd (ntfs_inode_close ops s (mv_newparent_ni lv)))
                  | Some NP \<Rightarrow> set_NtfsInode s NP (mv_newparent_ni lv))
               else Some s);
       s2 \<leftarrow> (case mv_Parent lv of
                 None \<Rightarrow> Some (snd (ntfs_inode_close ops s1 (mv_parent_ni lv)))
               | Some Pa \<Rightarrow> set_NtfsInode s1 Pa (mv_parent_ni lv));
       s3 \<leftarrow> (if \<not> mv_SameDir lv \<and> \<not> mv_ParentIsChildOfNewParent lv then
                 (case mv_NewParent lv of
                    None \<Rightarrow> Some (snd (ntfs_inode_close ops s2 (mv_newparent_ni lv)))
                  | Some NP \<Rightarrow> set_NtfsInode s2 NP (mv_newparent_ni lv))
               else Some s2);
       Some (Status, s3)
     }"

definition NtfsMoveFile ::
  "'v ntfs_ops \<Rightarrow> 'v state \<Rightarrow> file_ptr \<Rightarrow> string \<Rightarrow> (EFI_STATUS \<times> 'v state) option" where
  "NtfsMoveFile ops s File NewPath =
     do {
       f \<leftarrow> Files s File;
       if Path f = NewPath then Some (EFI_SUCCESS, s)
       else do {
         ni \<leftarrow> NtfsInode f;
         if IS_DIRTY s ni then Some (EFI_ACCESS_DENIED, s)
         else do {
           Len \<leftarrow> scan_back NewPath (length NewPath);
           ((jump, lv), s1) \<leftarrow>
             NtfsMoveFile_parents ops s File (take Len NewPath) (drop (Len + 1) NewPath);
           ((Status, lv'), s2) \<leftarrow>
             (case jump of
                Some st \<Rightarrow> Some ((st, lv), s1)
              | None \<Rightarrow> NtfsMoveFile_relink ops s1 File NewPath Len lv);
           NtfsMoveFile_out ops s2 lv' Status
         }
       }
     }"

section \<open>SetInfo\<close>












section \<open>A small volume for the examples\<close>

text \<open>
  A simple instance of the external functions, for the places where a theorem is applied
  to a concrete state. Every inode that is opened gets a new address (the volume is the
  counter of addresses); names are resolved from a table; the configuration says whether
  pool allocations, opening by number, deleting and syncing succeed. In \<open>demo_state2\<close>
  the directory \<^verbatim>\<open>/d\<close> is open as record 1 and the file \<^verbatim>\<open>/d/f\<close> as record 2.
\<close>

record demo_cfg =
  pool_ok :: bool
  open_ok :: bool
  delete_r :: int
  sync_r :: int
  names :: "(string \<times> nat) list"
  chunk :: int

definition demo_inode :: "nat \<Rightarrow> ntfs_inode" where
  "demo_inode m =
     \<lparr>mft_no = m, data_size = 100, allocated_size = 4096, creation_time = 0,
      last_access_time = 0, last_data_change_time = 0, flags = 0, NI_Dirty = False,
      NI_AttrListDirty = False, MFT_RECORD_IS_DIRECTORY = False\<rparr>"

definition demo_new_inode :: "nat world \<Rightarrow> nat \<Rightarrow> ino_ptr option \<times> nat world" where
  "demo_new_inode w m =
     (Some (vol w), w\<lparr>inodes := (inodes w)(vol w := demo_inode m), vol := Suc (vol w)\<rparr>)"

definition demo_ops :: "demo_cfg \<Rightarrow> nat ntfs_ops" where
  "demo_ops c =
     \<lparr>op_inode_open = (\<lambda>w m. if open_ok c then demo_new_inode w m else (None, w\<lparr>errno := ENOENT\<rparr>)),
      op_inode_close = (\<lambda>w ni. (0, w)),
      op_pathname_to_inode = (\<lambda>w parent path.
         case map_of (names c) path of
           None \<Rightarrow> (None, w\<lparr>errno := ENOENT\<rparr>)
         | Some m \<Rightarrow> demo_new_inode w m),
      op_delete = (\<lambda>w ni dir_ni name len.
         (delete_r c, if delete_r c < 0 then w\<lparr>errno := EIO\<rparr> else w)),
      op_link = (\<lambda>w ni dir_ni name len. (0, w)),
      op_create = (\<lambda>w dir_ni name len isdir. demo_new_inode w 100),
      op_inode_sync = (\<lambda>w ni. (sync_r c, if sync_r c < 0 then w\<lparr>errno := EIO\<rparr> else w)),
      op_inode_update_times = (\<lambda>w ni upd. ((), w)),
      op_inode_update_mbsname = (\<lambda>w ni name inum. ((), w)),
      op_forbidden_names = (\<lambda>w name. (False, w)),
      op_attr_open = (\<lambda>w ni.
         case ni of
           None \<Rightarrow> (None, w\<lparr>errno := EINVAL\<rparr>)
         | Some i \<Rightarrow> (Some \<lparr>attr_ni = ni, attr_data_size = data_size (inodes w i)\<rparr>, w)),
      op_attr_pread = (\<lambda>w na pos cnt buf. (min cnt (chunk c), w)),
      op_attr_truncate = (\<lambda>w na newsize. (0, w)),
      op_attr_close = (\<lambda>w na. ((), w)),
      op_ucstombs = (\<lambda>w Src. ((int (length Src), Src), w)),
      op_AllocatePool = (\<lambda>w. (pool_ok c, w)),
      NVolReadOnly = (\<lambda>v. False),
      GetInodeNumber = (\<lambda>x. x mod 2 ^ 48),
      CleanPath = (\<lambda>p. p),
      EfiTimeToNtfsTime = (\<lambda>t. int (unat (Year t)))\<rparr>"

definition demo_cfg0 :: demo_cfg where
  "demo_cfg0 = \<lparr>pool_ok = True, open_ok = True, delete_r = 0, sync_r = 0,
      names = [(''a'', 64), (''b'', 64), (''d'', 65), (''f'', 66), (''d/f'', 66)], chunk = 4\<rparr>"

definition new_File :: "string \<Rightarrow> nat \<Rightarrow> bool \<Rightarrow> EFI_NTFS_FILE" where
  "new_File p b d =
     \<lparr>IsDir = d, IsRoot = False, DirPos = 0, Offset = 0, Path = p, BaseName = b,
      RefCount = 0, NtfsInode = None\<rparr>"

definition demo_state0 :: "nat state" where
  "demo_state0 =
     \<lparr>LookupListHead = [], Files = Map.empty,
      World = \<lparr>errno = Errno_0, inodes = (\<lambda>_. demo_inode 0), vol = 1\<rparr>, Calls = []\<rparr>"

definition demo_state2 :: "nat state" where
  "demo_state2 =
     \<lparr>LookupListHead = [1, 2],
      Files = [1 \<mapsto> (new_File ''/d'' 1 True)\<lparr>NtfsInode := Some 1\<rparr>,
               2 \<mapsto> (new_File ''/d/f'' 3 False)\<lparr>NtfsInode := Some 2\<rparr>],
      World = \<lparr>errno = Errno_0, inodes = (\<lambda>_. demo_inode 0)(1 := demo_inode 65, 2 := demo_inode 66), vol = 3\<rparr>, Calls = []\<rparr>"

section \<open>The lookup list over sequences of calls\<close>







text \<open>
  The lookup list is kept by path: \<open>reg_ok\<close> says that the records of the list are
  allocated and that no two of them have the same string in \<^verbatim>\<open>Path\<close>.
\<close>

definition reg_ok :: "(file_ptr \<rightharpoonup> EFI_NTFS_FILE) \<Rightarrow> file_ptr list \<Rightarrow> bool" where
  "reg_ok F L =
     (distinct (map (\<lambda>p. map_option Path (F p)) L) \<and> None \<notin> set (map (\<lambda>p. map_option Path (F p)) L))"


text \<open>
  Relations between the state before and after a part of a call. \<open>frame\<close>: no record
  changes its path, and the list only loses entries. \<open>same_reg\<close>: no record changes its
  path and the list is the same. \<open>added\<close>: as \<open>same_reg\<close>, but the record given may have
  been put at the end of the list. \<open>moved\<close>: the list is the same, and only the record
  given may have changed its path, to the path given.
\<close>

definition frame :: "'v state \<Rightarrow> 'v state \<Rightarrow> bool" where
  "frame s s' =
     ((\<forall>p. map_option Path (Files s' p) = map_option Path (Files s p)) \<and>
      (\<exists>xs. LookupListHead s' = foldr remove1 xs (LookupListHead s)))"

definition same_reg :: "'v state \<Rightarrow> 'v state \<Rightarrow> bool" where
  "same_reg s s' =
     ((\<forall>p. map_option Path (Files s' p) = map_option Path (Files s p)) \<and>
      LookupListHead s' = LookupListHead s)"

definition added :: "file_ptr \<Rightarrow> 'v state \<Rightarrow> 'v state \<Rightarrow> bool" where
  "added FP s s' =
     ((\<forall>p. map_option Path (Files s' p) = map_option Path (Files s p)) \<and>
      (LookupListHead s' = LookupListHead s \<or> LookupListHead s' = LookupListHead s @ [FP]))"



section \<open>What the external calls leave unchanged\<close>

text \<open>
  An external call changes the world and adds one entry to the list of calls; the lookup
  list and the \<^verbatim>\<open>EFI_NTFS_FILE\<close> records are out of its reach.
\<close>

lemma externD:
  "extern f tag s = (r, s') \<Longrightarrow>
     LookupListHead s' = LookupListHead s \<and> Files s' = Files s \<and> Calls s' = Calls s @ [tag r]"
  by (auto simp: extern_def split: prod.splits)

lemmas extern_defs =
  ntfs_inode_open_def ntfs_inode_close_def ntfs_pathname_to_inode_def ntfs_delete_def
  ntfs_link_def ntfs_create_def ntfs_inode_sync_def ntfs_inode_update_times_def
  ntfs_inode_update_mbsname_def ntfs_forbidden_names_def ntfs_attr_open_def
  ntfs_attr_pread_def ntfs_attr_truncate_def ntfs_attr_close_def to_utf8_def AllocatePool_def

lemma extern_snd [simp]:
  "LookupListHead (snd (extern f tag s)) = LookupListHead s"
  "Files (snd (extern f tag s)) = Files s"
  "Calls (snd (extern f tag s)) = Calls s @ [tag (fst (extern f tag s))]"
  by (simp_all add: extern_def split_beta)

lemma close_ParentD:
  "close_Parent ops s Pa = Some (n, s') \<Longrightarrow>
     LookupListHead s' = LookupListHead s \<and> Files s' = Files s \<and>
     (\<exists>pf pni c. Files s Pa = Some pf \<and> NtfsInode pf = Some pni \<and>
        n = mft_no (inodes (World s) pni) \<and>
        Calls s' = Calls s @ [Call_inode_close (Some pni) c])"
  unfolding close_Parent_def ntfs_inode_close_def
  by (auto simp: bind_eq_Some_conv)

lemma reopen_ParentD:
  "reopen_Parent ops s Pa n = Some (ok, s') \<Longrightarrow>
     LookupListHead s' = (if ok then LookupListHead s else remove1 Pa (LookupListHead s)) \<and>
     (\<exists>pf r. Files s Pa = Some pf \<and> ok = (r \<noteq> None) \<and>
        Files s' = (Files s)(Pa \<mapsto> pf\<lparr>NtfsInode := r\<rparr>) \<and>
        Calls s' = Calls s @ [Call_inode_open n r])"
  unfolding reopen_Parent_def ntfs_inode_open_def set_NtfsInode_def put_File_def NtfsLookupRem_def
  by (auto simp: bind_eq_Some_conv Let_def split: prod.splits if_splits dest!: externD)

lemma NtfsLookup_from_mem:
  "NtfsLookup_from F I g Self P Inum ig L = Some (Some E) \<Longrightarrow> E \<in> set L"
  by (induction L) (auto split: if_splits option.splits)

lemma NtfsLookup_from_not_self:
  "NtfsLookup_from F I g (Some File) P 0 True L = Some (Some E) \<Longrightarrow> E \<noteq> File"
  by (induction L) (auto split: if_splits option.splits)

lemma NtfsLookupParentD:
  "NtfsLookupParent ops s File = Some (Some Pa) \<Longrightarrow> Pa \<in> set (LookupListHead s) \<and> Pa \<noteq> File"
  unfolding NtfsLookupParent_def NtfsLookupPath_def NtfsLookup_def cut_BaseName_def put_File_def
  by (auto simp: bind_eq_Some_conv dest: NtfsLookup_from_mem NtfsLookup_from_not_self)

text \<open>Whether an entry of the list of calls is a call of \<^verbatim>\<open>ntfs_delete\<close>.\<close>

fun is_Call_delete :: "extern_call \<Rightarrow> bool" where
  "is_Call_delete (Call_delete ni dir_ni name len r) = True"
| "is_Call_delete _ = False"

lemma NtfsOpenInodeFromPathD:
  "NtfsOpenInodeFromPath ops s P = Some (r, s') \<Longrightarrow>
     LookupListHead s' = LookupListHead s \<and> Files s' = Files s \<and>
     (\<exists>cs. Calls s' = Calls s @ cs \<and> (\<forall>c \<in> set cs. \<not> is_Call_delete c))"
  unfolding NtfsOpenInodeFromPath_def extern_defs
  by (auto simp: bind_eq_Some_conv Let_def split_beta split: option.splits if_splits
      dest!: externD)

lemma reopen_stage_calls:
  assumes "(case Parent of None \<Rightarrow> Some (True, s) | Some Pa \<Rightarrow> reopen_Parent ops s Pa n) = Some (ok, s')"
  shows "\<exists>cs. Calls s' = Calls s @ cs \<and> (\<forall>c \<in> set cs. \<not> is_Call_delete c)"
  using assms by (auto split: option.splits dest!: reopen_ParentD)

lemma NtfsDeleteFile_tail_cases:
  assumes run: "NtfsDeleteFile_tail ops s File Pa pin GP gin dir = Some (Status, s')"
  shows "(Status = EFI_ACCESS_DENIED \<and> s' = s) \<or>
     (\<exists>f r s1. Files s File = Some f \<and>
        ntfs_delete ops s (NtfsInode f) (Some dir) (drop (BaseName f) (Path f))
          (length (drop (BaseName f) (Path f)) mod 256) = (r, s1) \<and>
        (if r < 0 then Status = EFI_WARN_DELETE_FAILURE \<and> s' = NtfsLookupRem s1 File
         else \<exists>cs. Calls s' = Calls s1 @ cs \<and> (\<forall>c \<in> set cs. \<not> is_Call_delete c)))"
proof (cases "mft_no (inodes (World s) dir) = FILE_Extend")
  case True
  with run show ?thesis by (simp add: NtfsDeleteFile_tail_def)
next
  case False
  with run obtain f where f: "Files s File = Some f"
    by (auto simp: NtfsDeleteFile_tail_def bind_eq_Some_conv)
  obtain r s1 where del: "ntfs_delete ops s (NtfsInode f) (Some dir) (drop (BaseName f) (Path f))
          (length (drop (BaseName f) (Path f)) mod 256) = (r, s1)"
    by (cases "ntfs_delete ops s (NtfsInode f) (Some dir) (drop (BaseName f) (Path f))
          (length (drop (BaseName f) (Path f)) mod 256)") auto
  show ?thesis
  proof (cases "r < 0")
    case True
    with run False f del show ?thesis
      by (simp add: NtfsDeleteFile_tail_def Let_def)
  next
    case nonneg: False
    from run False f del nonneg
    have "\<exists>cs'. Calls s' = Calls s1 @ cs' \<and> (\<forall>c \<in> set cs'. \<not> is_Call_delete c)"
      by (auto simp: NtfsDeleteFile_tail_def Let_def bind_eq_Some_conv set_NtfsInode_def
            put_File_def NtfsLookupRem_def
          split: if_splits option.splits dest!: reopen_ParentD)
    with f del nonneg show ?thesis by auto
  qed
qed

lemma NtfsDeleteFile_tail_failure:
  assumes run: "NtfsDeleteFile_tail ops s File Pa pin GP gin dir = Some (Status, s')"
    and call: "Call_delete ni dir_ni name len r \<in> set (drop (length (Calls s)) (Calls s'))"
    and r: "r < 0"
    and dist: "distinct (LookupListHead s)"
  shows "Status = EFI_WARN_DELETE_FAILURE \<and> File \<notin> set (LookupListHead s')"
proof -
  from NtfsDeleteFile_tail_cases [OF run] call
  obtain f r0 s1 where f: "Files s File = Some f"
    and del: "ntfs_delete ops s (NtfsInode f) (Some dir) (drop (BaseName f) (Path f))
          (length (drop (BaseName f) (Path f)) mod 256) = (r0, s1)"
    and rest: "if r0 < 0 then Status = EFI_WARN_DELETE_FAILURE \<and> s' = NtfsLookupRem s1 File
         else \<exists>cs. Calls s' = Calls s1 @ cs \<and> (\<forall>c \<in> set cs. \<not> is_Call_delete c)"
    by auto
  from del have s1: "LookupListHead s1 = LookupListHead s"
    "Calls s1 = Calls s @ [Call_delete (NtfsInode f) (Some dir) (drop (BaseName f) (Path f))
          (length (drop (BaseName f) (Path f)) mod 256) r0]"
    by (auto simp: ntfs_delete_def dest!: externD)
  have "r0 < 0"
  proof (rule ccontr)
    assume "\<not> r0 < 0"
    with rest obtain cs where cs: "Calls s' = Calls s1 @ cs" "\<forall>c \<in> set cs. \<not> is_Call_delete c"
      by auto
    with s1 call have "Call_delete ni dir_ni name len r = Call_delete (NtfsInode f) (Some dir) (drop (BaseName f) (Path f))
          (length (drop (BaseName f) (Path f)) mod 256) r0 \<or> Call_delete ni dir_ni name len r \<in> set cs"
      by auto
    with cs r \<open>\<not> r0 < 0\<close> show False by auto
  qed
  with rest s1 dist show ?thesis
    by (auto simp: NtfsLookupRem_def)
qed

lemma cut_restore_frame:
  assumes "cut_BaseName s File = Some s0"
    and "LookupListHead s1 = LookupListHead s0" "Files s1 = Files s0"
    and "restore_BaseName s1 File p = Some s2"
  shows "LookupListHead s2 = LookupListHead s \<and> Calls s2 = Calls s1 \<and> Calls s0 = Calls s"
  using assms
  by (auto simp: cut_BaseName_def restore_BaseName_def put_File_def bind_eq_Some_conv)

lemma NtfsDeleteFile_cases:
  assumes run: "NtfsDeleteFile ops s File = Some (Status, s')"
  shows "\<exists>s2 cs. LookupListHead s2 = LookupListHead s \<and> Calls s2 = Calls s @ cs \<and>
           (\<forall>c \<in> set cs. \<not> is_Call_delete c) \<and>
           ((Status = ErrnoToEfiStatus (errno (World s2)) \<and> s' = s2) \<or>
            (\<exists>Pa pin GP gin dir.
               NtfsDeleteFile_tail ops s2 File Pa pin GP gin dir = Some (Status, s')))"
proof -
  from run obtain Parent where par: "NtfsLookupParent ops s File = Some Parent"
    by (auto simp: NtfsDeleteFile_def bind_eq_Some_conv)
  show ?thesis
  proof (cases Parent)
    case None
    with run par have "\<exists>p s0 p0 dir s1 s2.
      cut_BaseName s File = Some s0 \<and>
      NtfsOpenInodeFromPath ops s0 p0 = Some (dir, s1) \<and>
      restore_BaseName s1 File p = Some s2 \<and>
      (case dir of None \<Rightarrow> Some (ErrnoToEfiStatus (errno (World s2)), s2)
                 | Some dir_ni \<Rightarrow> NtfsDeleteFile_tail ops s2 File None 0 None 0 dir_ni) = Some (Status, s')"
      by (fastforce simp: NtfsDeleteFile_def bind_eq_Some_conv)
    then obtain p s0 p0 dir s1 s2 where
      cut: "cut_BaseName s File = Some s0"
      and op: "NtfsOpenInodeFromPath ops s0 p0 = Some (dir, s1)"
      and res: "restore_BaseName s1 File p = Some s2"
      and fin: "(case dir of None \<Rightarrow> Some (ErrnoToEfiStatus (errno (World s2)), s2)
                 | Some dir_ni \<Rightarrow> NtfsDeleteFile_tail ops s2 File None 0 None 0 dir_ni) = Some (Status, s')"
      by blast
    from NtfsOpenInodeFromPathD [OF op] obtain cs where
      fr: "LookupListHead s1 = LookupListHead s0" "Files s1 = Files s0"
      and cs: "Calls s1 = Calls s0 @ cs" "\<forall>c \<in> set cs. \<not> is_Call_delete c"
      by blast
    from cut_restore_frame [OF cut fr res] cs
    have "LookupListHead s2 = LookupListHead s" "Calls s2 = Calls s @ cs" by auto
    with cs(2) fin show ?thesis
      by (cases dir) (simp_all, blast+)
  next
    case (Some Pa)
    with run par have "\<exists>GrandParent GP gin s1 dir_ni.
        (case GrandParent of None \<Rightarrow> Some (None, 0, s)
            | Some G \<Rightarrow> do { g \<leftarrow> Files s G;
                 if IsRoot g then Some (None, 0, s)
                 else do { (inum, s') \<leftarrow> close_Parent ops s G; Some (Some G, inum, s') } })
           = Some (GP, gin, s1) \<and>
        NtfsDeleteFile_tail ops s1 File (Some Pa) (mft_no (inodes (World s1) dir_ni))
               GP gin dir_ni = Some (Status, s')"
      by (fastforce simp: NtfsDeleteFile_def bind_eq_Some_conv)
    then obtain GrandParent GP gin s1 dir_ni where
      gp: "(case GrandParent of None \<Rightarrow> Some (None, 0, s)
            | Some G \<Rightarrow> do { g \<leftarrow> Files s G;
                 if IsRoot g then Some (None, 0, s)
                 else do { (inum, s') \<leftarrow> close_Parent ops s G; Some (Some G, inum, s') } })
           = Some (GP, gin, s1)"
      and tail: "NtfsDeleteFile_tail ops s1 File (Some Pa) (mft_no (inodes (World s1) dir_ni))
               GP gin dir_ni = Some (Status, s')"
      by blast
    from gp have "LookupListHead s1 = LookupListHead s \<and>
        (\<exists>cs. Calls s1 = Calls s @ cs \<and> (\<forall>c \<in> set cs. \<not> is_Call_delete c))"
      by (auto simp: bind_eq_Some_conv split: option.splits if_splits dest!: close_ParentD)
    with tail show ?thesis by blast
  qed
qed

text \<open>The definitions that evaluate an operation on the small volume.\<close>

lemmas eval_defs =
  NtfsFlushFile_def NtfsLookupParent_def cut_BaseName_def dirname_def NtfsLookupPath_def
  NtfsLookup_def put_File_def close_Parent_def reopen_Parent_def set_NtfsInode_def NtfsLookupRem_def
  extern_defs extern_def demo_ops_def demo_cfg0_def demo_state2_def demo_state0_def new_File_def
  demo_inode_def demo_new_inode_def Let_def split_beta PATH_CHAR_def



section \<open>Flush\<close>



section \<open>Close\<close>




section \<open>Delete\<close>

text \<open>
  C5. When \<^verbatim>\<open>NtfsDeleteFile\<close> calls \<^verbatim>\<open>ntfs_delete\<close> and the call returns a negative
  value, the record is no longer in the lookup list and the status is
  \<^verbatim>\<open>EFI_WARN_DELETE_FAILURE\<close>.
\<close>

theorem NtfsDeleteFile_engine_failure:
  assumes run: "NtfsDeleteFile ops s File = Some (Status, s')"
    and call: "Call_delete ni dir_ni name len r \<in> set (drop (length (Calls s)) (Calls s'))"
    and r: "r < 0"
    and dist: "distinct (LookupListHead s)"
  shows "Status = EFI_WARN_DELETE_FAILURE \<and> File \<notin> set (LookupListHead s')"
proof -
  from NtfsDeleteFile_cases [OF run] obtain s2 cs where
    l2: "LookupListHead s2 = LookupListHead s" and c2: "Calls s2 = Calls s @ cs"
    and cs: "\<forall>c \<in> set cs. \<not> is_Call_delete c"
    and alt: "(Status = ErrnoToEfiStatus (errno (World s2)) \<and> s' = s2) \<or>
            (\<exists>Pa pin GP gin dir.
               NtfsDeleteFile_tail ops s2 File Pa pin GP gin dir = Some (Status, s'))"
    by blast
  from alt show ?thesis
  proof
    assume "Status = ErrnoToEfiStatus (errno (World s2)) \<and> s' = s2"
    with call c2 cs show ?thesis by auto
  next
    assume "\<exists>Pa pin GP gin dir.
               NtfsDeleteFile_tail ops s2 File Pa pin GP gin dir = Some (Status, s')"
    then obtain Pa pin GP gin dir where
      tail: "NtfsDeleteFile_tail ops s2 File Pa pin GP gin dir = Some (Status, s')" by blast
    from NtfsDeleteFile_tail_cases [OF tail] have "\<exists>ds. Calls s' = Calls s2 @ ds"
      by (auto simp: ntfs_delete_def NtfsLookupRem_def split: if_splits dest!: externD)
    then obtain ds where ds: "Calls s' = Calls s2 @ ds" by blast
    with c2 call have "Call_delete ni dir_ni name len r \<in> set cs \<or> Call_delete ni dir_ni name len r \<in> set ds"
      by auto
    with cs have "Call_delete ni dir_ni name len r \<in> set ds" by auto
    with ds have "Call_delete ni dir_ni name len r \<in> set (drop (length (Calls s2)) (Calls s'))"
      by simp
    from NtfsDeleteFile_tail_failure [OF tail this r] dist l2 show ?thesis by simp
  qed
qed

theorem NtfsDeleteFile_engine_failure_witness:
  "\<exists>Status s'. NtfsDeleteFile (demo_ops (demo_cfg0\<lparr>delete_r := - 1\<rparr>)) demo_state2 2 = Some (Status, s') \<and>
     Call_delete (Some 2) (Some 1) ''f'' 1 (- 1) \<in> set (drop (length (Calls demo_state2)) (Calls s')) \<and>
     Status = EFI_WARN_DELETE_FAILURE \<and> 2 \<notin> set (LookupListHead s')"
proof -
  have "\<exists>Status s'. NtfsDeleteFile (demo_ops (demo_cfg0\<lparr>delete_r := - 1\<rparr>)) demo_state2 2 = Some (Status, s') \<and>
     Call_delete (Some 2) (Some 1) ''f'' 1 (- 1) \<in> set (drop (length (Calls demo_state2)) (Calls s'))"
    by (simp add: NtfsDeleteFile_def NtfsDeleteFile_tail_def FILE_Extend_def eval_defs)
  then obtain Status s' where
    run: "NtfsDeleteFile (demo_ops (demo_cfg0\<lparr>delete_r := - 1\<rparr>)) demo_state2 2 = Some (Status, s')"
    and call: "Call_delete (Some 2) (Some 1) ''f'' 1 (- 1) \<in> set (drop (length (Calls demo_state2)) (Calls s'))"
    by blast
  have dist: "distinct (LookupListHead demo_state2)"
    by (simp add: demo_state2_def)
  from NtfsDeleteFile_engine_failure [OF run call _ dist] run call show ?thesis
    by auto
qed

text \<open>
  C4 holds in \<^verbatim>\<open>NtfsCloseFile\<close> and \<^verbatim>\<open>NtfsFlushFile\<close>, and fails in \<^verbatim>\<open>NtfsDeleteFile\<close>, which
  returns \<^verbatim>\<open>ErrnoToEfiStatus()\<close> when the parent cannot be reopened. On the small volume,
  deleting \<^verbatim>\<open>/d/f\<close> while \<^verbatim>\<open>/d\<close> is registered gives \<^verbatim>\<open>EFI_SUCCESS\<close>; when
  \<^verbatim>\<open>ntfs_delete\<close> succeeds as before and \<^verbatim>\<open>ntfs_inode_open\<close> of the parent fails with
  \<^verbatim>\<open>ENOENT\<close>, the status is \<^verbatim>\<open>EFI_NOT_FOUND\<close>.
\<close>

theorem NtfsDeleteFile_reopen_failure_changes_status:
  "map_option fst (NtfsDeleteFile (demo_ops demo_cfg0) demo_state2 2) = Some EFI_SUCCESS \<and>
   map_option fst (NtfsDeleteFile (demo_ops (demo_cfg0\<lparr>open_ok := False\<rparr>)) demo_state2 2)
     = Some EFI_NOT_FOUND \<and>
   map_option (Calls \<circ> snd) (NtfsDeleteFile (demo_ops (demo_cfg0\<lparr>open_ok := False\<rparr>)) demo_state2 2)
     = Some [Call_delete (Some 2) (Some 1) ''f'' 1 0, Call_inode_open 65 None]"
  by (simp add: NtfsDeleteFile_def NtfsDeleteFile_tail_def FILE_Extend_def eval_defs)

section \<open>Read\<close>








section \<open>Move\<close>

text \<open>
  C7. \<^verbatim>\<open>NtfsMoveFile\<close> to a path other than the record's, on a record whose inode is
  dirty, returns \<^verbatim>\<open>EFI_ACCESS_DENIED\<close> and leaves the state as it was: no call is made
  (no link, no delete) and no record changes.
\<close>

theorem NtfsMoveFile_dirty:
  assumes "Files s File = Some f" and "Path f \<noteq> NewPath"
    and "NtfsInode f = Some ni" and "IS_DIRTY s ni"
  shows "NtfsMoveFile ops s File NewPath = Some (EFI_ACCESS_DENIED, s)"
  using assms by (simp add: NtfsMoveFile_def)

definition demo_state_dirty :: "nat state" where
  "demo_state_dirty =
     demo_state2\<lparr>World := (World demo_state2)\<lparr>inodes :=
        (inodes (World demo_state2))(2 := (demo_inode 66)\<lparr>NI_Dirty := True\<rparr>)\<rparr>\<rparr>"

theorem NtfsMoveFile_dirty_witness:
  "NtfsMoveFile (demo_ops demo_cfg0) demo_state_dirty 2 ''/d/g'' = Some (EFI_ACCESS_DENIED, demo_state_dirty)"
proof -
  have rec: "Files demo_state_dirty 2 = Some ((new_File ''/d/f'' 3 False)\<lparr>NtfsInode := Some 2\<rparr>)"
    by (simp add: demo_state_dirty_def demo_state2_def)
  have dirty: "IS_DIRTY demo_state_dirty 2"
    by (simp add: IS_DIRTY_def demo_state_dirty_def demo_state2_def)
  show ?thesis
    by (rule NtfsMoveFile_dirty [OF rec _ _ dirty]) (simp_all add: new_File_def)
qed

section \<open>SetInfo\<close>





section \<open>The errno translation is many-to-one\<close>

text \<open>
  C9, as stated, fails: the translation is not one-to-one. \<^verbatim>\<open>EACCES\<close> and \<^verbatim>\<open>EEXIST\<close> are
  different values of \<^verbatim>\<open>errno\<close> and both give \<^verbatim>\<open>EFI_ACCESS_DENIED\<close>.
\<close>

theorem ErrnoToEfiStatus_not_one_to_one:
  "EACCES \<noteq> EEXIST \<and> ErrnoToEfiStatus EACCES = ErrnoToEfiStatus EEXIST"
  by simp

text \<open>
  C9, amended: the translation is a deterministic many-to-one mapping. Every value of
  \<^verbatim>\<open>errno\<close> has exactly one status; 0 is the only value that gives \<^verbatim>\<open>EFI_SUCCESS\<close>; a
  value without a \<^verbatim>\<open>case\<close> label gives \<^verbatim>\<open>EFI_NO_MAPPING\<close>; and no value gives a warning,
  so every nonzero value gives a status that \<^verbatim>\<open>EFI_ERROR\<close> accepts.
\<close>

theorem ErrnoToEfiStatus_many_to_one:
  "(\<exists>!st. ErrnoToEfiStatus e = st) \<and>
   (ErrnoToEfiStatus e = EFI_SUCCESS) = (e = Errno_0) \<and>
   ErrnoToEfiStatus (Errno_other n) = EFI_NO_MAPPING \<and>
   EFI_ERROR (ErrnoToEfiStatus e) = (e \<noteq> Errno_0)"
  by (cases e) simp_all

section \<open>Lookups by path\<close>






lemma NtfsLookup_from_path_dom:
  "NtfsLookup_from F I g Self P 0 False L = Some r \<Longrightarrow> r = None \<or> (\<exists>e. r = Some e \<and> e \<in> set L)"
  by (cases r) (auto dest: NtfsLookup_from_mem)

lemma NtfsFreeFile_Some:
  "Files s FP = Some f \<Longrightarrow>
     NtfsFreeFile s (Some FP) =
       Some (if RefCount f \<le> 0 then s\<lparr>Files := (Files s)(FP := None)\<rparr> else s)"
  by (simp add: NtfsFreeFile_def)

lemma NtfsLookupAddD:
  "NtfsLookupAdd ops s FP = s' \<Longrightarrow>
     Files s' = Files s \<and>
     (LookupListHead s' = LookupListHead s \<or> LookupListHead s' = LookupListHead s @ [FP])"
  unfolding NtfsLookupAdd_def AllocatePool_def
  by (auto simp: split_beta Let_def)



section \<open>Opening a path twice\<close>




section \<open>What the calls do to the lookup list\<close>

text \<open>
  \<^verbatim>\<open>NtfsCloseFile\<close> and \<^verbatim>\<open>NtfsDeleteFile\<close> change no path and only take entries out of
  the list.
\<close>

lemma frame_refl [simp]: "frame s s"
  unfolding frame_def by (auto intro: exI [of _ "[]"])


lemma frame_extern [simp]: "frame s (snd (extern f tag s))"
  unfolding frame_def by (auto intro: exI [of _ "[]"])

lemma frame_externD: "extern f tag s = (r, s') \<Longrightarrow> frame s s'"
  using frame_extern [of s f tag] by simp





lemma frame_OpenInodeFromPath: "NtfsOpenInodeFromPath ops s P = Some (r, s') \<Longrightarrow> frame s s'"
  by (drule NtfsOpenInodeFromPathD) (auto simp: frame_def intro: exI [of _ "[]"])











lemma reg_ok_allocated: "reg_ok F L \<Longrightarrow> p \<in> set L \<Longrightarrow> F p \<noteq> None"
  unfolding reg_ok_def by force



text \<open>
  \<^verbatim>\<open>NtfsOpenFile\<close> and \<^verbatim>\<open>NtfsCreateFile\<close> change no path; the record they are given is
  put at the end of the list only after the lookup by its path has found nothing.
\<close>

lemma same_reg_refl [simp]: "same_reg s s"
  by (simp add: same_reg_def)


lemma same_reg_eqI: "Files s' = Files s \<Longrightarrow> LookupListHead s' = LookupListHead s \<Longrightarrow> same_reg s s'"
  by (simp add: same_reg_def)






lemma added_LookupAdd [simp]: "added FP s (NtfsLookupAdd ops s FP)"
  using NtfsLookupAddD [of ops s FP "NtfsLookupAdd ops s FP"]
  by (auto simp: added_def)








lemma update_inode_proj [simp]:
  "Files (update_inode s n g) = Files s"
  "LookupListHead (update_inode s n g) = LookupListHead s"
  by (simp_all add: update_inode_def)























section \<open>One open inode for each object\<close>




end
